theory Spec2Isabelle
  imports Main
begin

section \<open>Python values and dictionaries\<close>

text \<open>
  The video downloader page (\<^verbatim>\<open>views/video_downloader.py\<close>) passes around three kinds
  of Python value as a format selector (\<^verbatim>\<open>itag\<close>) and as the entries of a variant
  dictionary of the extraction library: \<^verbatim>\<open>None\<close>, integers and strings. Python compares
  an \<^verbatim>\<open>int\<close> and a \<^verbatim>\<open>str\<close> as unequal whatever they hold, which the constructors of
  \<open>pyval\<close> do as well.
\<close>

datatype pyval = PNone | PInt int | PStr string

text \<open>Truth value of a Python object, as \<^verbatim>\<open>and\<close>, \<^verbatim>\<open>or\<close> and \<^verbatim>\<open>if\<close> test it.\<close>

fun truthy :: "pyval \<Rightarrow> bool" where
  "truthy PNone = False"
| "truthy (PInt n) = (n \<noteq> 0)"
| "truthy (PStr s) = (s \<noteq> [])"

text \<open>\<^verbatim>\<open>a or b\<close>: the first operand when it is true, the second otherwise.\<close>

definition py_or :: "pyval \<Rightarrow> pyval \<Rightarrow> pyval" where
  "py_or a b = (if truthy a then a else b)"

text \<open>
  A \<^verbatim>\<open>dict\<close> is an association list in insertion order. \<open>dict_get\<close> is
  \<^verbatim>\<open>d.get(k, default)\<close>, \<open>dict_set\<close> is \<^verbatim>\<open>d[k] = v\<close> (a key that is present keeps
  its position, a new key goes last) and \<open>dict_has\<close> is \<^verbatim>\<open>k in d\<close>.
\<close>

definition dict_get :: "('k \<times> 'v) list \<Rightarrow> 'k \<Rightarrow> 'v \<Rightarrow> 'v" where
  "dict_get d k dflt = (case map_of d k of None \<Rightarrow> dflt | Some v \<Rightarrow> v)"

fun dict_set :: "'k \<Rightarrow> 'v \<Rightarrow> ('k \<times> 'v) list \<Rightarrow> ('k \<times> 'v) list" where
  "dict_set k v [] = [(k, v)]"
| "dict_set k v ((k', v') # d) =
     (if k' = k then (k, v) # d else (k', v') # dict_set k v d)"

definition dict_has :: "('k \<times> 'v) list \<Rightarrow> 'k \<Rightarrow> bool" where
  "dict_has d k = (map_of d k \<noteq> None)"

section \<open>Constants of the module\<close>

definition HEADERS :: "(string \<times> string) list" where
  "HEADERS =
     [(''User-Agent'',
       ''Mozilla/5.0 (Windows NT 10.0; Win64; x64) '' @
       ''AppleWebKit/537.36 (KHTML, like Gecko) '' @
       ''Chrome/58.0.3029.110 Safari/537.36'')]"

definition DOWNLOAD_FOLDERS :: "(string \<times> string) list" where
  "DOWNLOAD_FOLDERS =
     [(''YouTube'', ''youtube_video''),
      (''YouTube Shorts'', ''youtube_shorts''),
      (''X'', ''x_video''),
      (''Facebook'', ''facebook_video''),
      (''Instagram'', ''instagram_video''),
      (''TikTok'', ''tiktok_video'')]"

definition DEFAULT_FILE_NAME :: string where
  "DEFAULT_FILE_NAME = ''Untitled.mp4''"

section \<open>The world outside the program\<close>

text \<open>
  An exception is one of the two kinds the handlers of \<^verbatim>\<open>download_video\<close> tell apart:
  the extraction library's \<^verbatim>\<open>DownloadError\<close>, and any other subclass of
  \<^verbatim>\<open>Exception\<close> (an \<^verbatim>\<open>OSError\<close> of \<^verbatim>\<open>os.makedirs\<close> among them). Each carries the text
  that \<^verbatim>\<open>str(e)\<close> gives, which may be empty (as for \<^verbatim>\<open>AssertionError()\<close>).
\<close>

datatype exn = DownloadError string | OtherException string

fun str_exn :: "exn \<Rightarrow> string" where
  "str_exn (DownloadError m) = m"
| "str_exn (OtherException m) = m"

text \<open>
  The options handed to \<^verbatim>\<open>YoutubeDL(ydl_opts)\<close> are a dictionary from option names to
  a flag, a string or a table of HTTP headers. The library's response to a metadata
  query is a dictionary whose entry \<^verbatim>\<open>'formats'\<close> lists the encoded variants, each a
  dictionary itself.
\<close>

datatype optval = OBool bool | OStr string | OHeaders "(string \<times> string) list"

type_synonym ydl_opts = "(string \<times> optval) list"

type_synonym variant = "(string \<times> pyval) list"

type_synonym info_dict = "(string \<times> variant list) list"

text \<open>
  The environment fixes what the program cannot decide: whether \<^verbatim>\<open>os.makedirs\<close> fails
  on a path (and with which message), what \<^verbatim>\<open>extract_info(url, download=False)\<close>
  answers under given options, and what \<^verbatim>\<open>download([url])\<close> does under given options:
  the paths it writes (a partial file included) and the exception it raises, if any.
  The library only adds files; it removes no directory.
\<close>

record env =
  makedirs_error :: "string \<Rightarrow> string option"
  extract_info :: "ydl_opts \<Rightarrow> string \<Rightarrow> exn + info_dict"
  download :: "ydl_opts \<Rightarrow> string list \<Rightarrow> string set \<times> exn option"

text \<open>
  The state the program changes: the paths that exist on the filesystem, as
  \<^verbatim>\<open>os.path.exists\<close> reports them (the program asks for nothing finer, and paths are
  compared as the strings it passes), and the log of the calls made to the extraction
  library, oldest first.
\<close>

datatype call = ExtractInfo ydl_opts string | Download ydl_opts "string list"

record world =
  fs :: "string set"
  calls :: "call list"

text \<open>
  \<^verbatim>\<open>os.makedirs(p)\<close> raises \<^verbatim>\<open>FileNotFoundError\<close> on the empty path and
  \<^verbatim>\<open>FileExistsError\<close> on a path that exists; otherwise it fails as the environment
  says, or creates the directory together with its missing parents.
\<close>

definition parents :: "string \<Rightarrow> string list" where
  "parents p = map (\<lambda>i. take i p) (filter (\<lambda>i. p ! i = CHR ''/'') [1..<length p])"

definition quoted :: "string \<Rightarrow> string" where
  "quoted p = [CHR 0x27] @ p @ [CHR 0x27]"

definition makedirs :: "env \<Rightarrow> string \<Rightarrow> string set \<Rightarrow> exn + string set" where
  "makedirs E p paths =
     (if p = [] then Inl (OtherException (''[Errno 2] No such file or directory: '' @ quoted p))
      else if p \<in> paths then Inl (OtherException (''[Errno 17] File exists: '' @ quoted p))
      else (case makedirs_error E p of
              Some m \<Rightarrow> Inl (OtherException m)
            | None \<Rightarrow> Inr (paths \<union> set (parents p) \<union> {p})))"

text \<open>\<^verbatim>\<open>os.path.join(a, b)\<close> of \<^verbatim>\<open>posixpath\<close>, for two components.\<close>

definition os_path_join :: "string \<Rightarrow> string \<Rightarrow> string" where
  "os_path_join a b =
     (if b \<noteq> [] \<and> hd b = CHR ''/'' then b
      else if a = [] \<or> last a = CHR ''/'' then a @ b
      else a @ ''/'' @ b)"

section \<open>The functions of the module\<close>

text \<open>
  \<^verbatim>\<open>ensure_folder_exists(folder)\<close>: creates the folder when \<^verbatim>\<open>os.path.exists\<close> denies
  it, and does nothing otherwise. The logging calls have no effect on the state
  modelled here.
\<close>

definition ensure_folder_exists :: "env \<Rightarrow> string \<Rightarrow> string set \<Rightarrow> exn + string set" where
  "ensure_folder_exists E folder paths =
     (if folder \<notin> paths then makedirs E folder paths else Inr paths)"

text \<open>\<^verbatim>\<open>get_format_string(itag)\<close>: a lookup in a table keyed by three integers.\<close>

definition format_map :: "(pyval \<times> string) list" where
  "format_map = [(PInt 18, ''18''), (PInt 22, ''22''), (PInt 37, ''37'')]"

definition get_format_string :: "pyval \<Rightarrow> string" where
  "get_format_string itag = dict_get format_map itag ''best''"

text \<open>
  The result dictionaries \<^verbatim>\<open>{"success": True, ...}\<close> and \<^verbatim>\<open>{"error": msg}\<close> are the two
  constructors of \<open>result\<close>; the payload is the list of formats for the info fetcher
  and the file path for the download.
\<close>

datatype 'a result = Success 'a | Failure string

text \<open>
  \<^verbatim>\<open>fetch_video_info(url)\<close>. The options are those of the source, under the keys of the
  source. The \<^verbatim>\<open>try\<close> body is \<open>fetch_video_info_try\<close>; the handler turns whatever it
  raises into the error dictionary.
\<close>

definition fetch_ydl_opts :: ydl_opts where
  "fetch_ydl_opts = [(''quiet'', OBool True), (''http_headers'', OHeaders HEADERS)]"

definition fetch_video_info_try :: "env \<Rightarrow> world \<Rightarrow> string \<Rightarrow> (exn + variant list) \<times> world" where
  "fetch_video_info_try E w url =
     (let w' = w\<lparr>calls := calls w @ [ExtractInfo fetch_ydl_opts url]\<rparr> in
      case extract_info E fetch_ydl_opts url of
        Inl e \<Rightarrow> (Inl e, w')
      | Inr info_dict \<Rightarrow> (Inr (dict_get info_dict ''formats'' []), w'))"

definition fetch_video_info :: "env \<Rightarrow> world \<Rightarrow> string \<Rightarrow> variant list result \<times> world" where
  "fetch_video_info E w url =
     (case fetch_video_info_try E w url of
        (Inr formats, w') \<Rightarrow> (Success formats, w')
      | (Inl e, w') \<Rightarrow> (Failure (str_exn e), w'))"

text \<open>
  \<^verbatim>\<open>download_video(url, platform, itag=None)\<close>. \<open>download_ydl_opts\<close> is the
  dictionary built at lines 67 to 78: the literal with the keys \<^verbatim>\<open>'outtmpl'\<close>,
  \<^verbatim>\<open>'quiet'\<close> and \<^verbatim>\<open>'headers'\<close>, then the assignment of \<^verbatim>\<open>'format'\<close>.
\<close>

definition download_ydl_opts :: "string \<Rightarrow> string \<Rightarrow> pyval \<Rightarrow> ydl_opts" where
  "download_ydl_opts file_path platform itag =
     (let ydl_opts = [(''outtmpl'', OStr file_path),
                      (''quiet'', OBool False),
                      (''headers'', OHeaders HEADERS)]
      in if platform \<in> set [''YouTube'', ''YouTube Shorts''] \<and> truthy itag
         then dict_set ''format'' (OStr (get_format_string itag)) ydl_opts
         else dict_set ''format'' (OStr ''best'') ydl_opts)"

definition download_video_try ::
    "env \<Rightarrow> world \<Rightarrow> string \<Rightarrow> string \<Rightarrow> pyval \<Rightarrow> (exn + string) \<times> world" where
  "download_video_try E w url platform itag =
     (let download_folder = dict_get DOWNLOAD_FOLDERS platform ''downloads'' in
      case ensure_folder_exists E download_folder (fs w) of
        Inl e \<Rightarrow> (Inl e, w)
      | Inr paths \<Rightarrow>
          (let file_path = os_path_join download_folder DEFAULT_FILE_NAME;
               ydl_opts = download_ydl_opts file_path platform itag;
               (written, raised) = download E ydl_opts [url];
               w' = \<lparr>fs = paths \<union> written, calls = calls w @ [Download ydl_opts [url]]\<rparr>
           in case raised of
                Some e \<Rightarrow> (Inl e, w')
              | None \<Rightarrow> (Inr file_path, w')))"

definition download_video ::
    "env \<Rightarrow> world \<Rightarrow> string \<Rightarrow> string \<Rightarrow> pyval \<Rightarrow> string result \<times> world" where
  "download_video E w url platform itag =
     (case download_video_try E w url platform itag of
        (Inr file_path, w') \<Rightarrow> (Success file_path, w')
      | (Inl (DownloadError m), w') \<Rightarrow> (Failure (''Download error: '' @ m), w')
      | (Inl (OtherException m), w') \<Rightarrow> (Failure (''Exception in download_video: '' @ m), w'))"

text \<open>
  The table of selectable resolutions that \<^verbatim>\<open>main\<close> builds from the fetched formats
  (lines 114 to 118): a variant without the key \<^verbatim>\<open>'format_id'\<close> is skipped, the others
  are entered under their format identifier with the first true value among the
  resolution, the format note and the literal \<^verbatim>\<open>"unknown"\<close>.
\<close>

fun available_itags_loop :: "variant list \<Rightarrow> (pyval \<times> pyval) list \<Rightarrow> (pyval \<times> pyval) list" where
  "available_itags_loop [] available_itags = available_itags"
| "available_itags_loop (f # formats) available_itags =
     available_itags_loop formats
       (if dict_has f ''format_id''
        then (let resolution = py_or (dict_get f ''resolution'' PNone)
                                 (py_or (dict_get f ''format_note'' PNone) (PStr ''unknown''))
              in dict_set (dict_get f ''format_id'' PNone) resolution available_itags)
        else available_itags)"

definition available_itags :: "variant list \<Rightarrow> (pyval \<times> pyval) list" where
  "available_itags formats = available_itags_loop formats []"

section \<open>Example environments\<close>

text \<open>
  Concrete environments on which the theorems below are exercised: a library that
  answers and downloads, one whose download raises \<^verbatim>\<open>DownloadError\<close>, one whose
  download raises another exception, a filesystem that refuses to create directories,
  a metadata answer in which no variant carries a format identifier, and a metadata
  query that raises an exception with an empty message.
\<close>

definition sample_formats :: "variant list" where
  "sample_formats =
     [[(''format_id'', PStr ''18''), (''resolution'', PStr ''640x360'')],
      [(''resolution'', PStr ''1280x720'')],
      [(''format_id'', PStr ''22''), (''format_note'', PStr ''720p'')]]"

definition written_by :: "ydl_opts \<Rightarrow> string set" where
  "written_by opts = (case map_of opts ''outtmpl'' of Some (OStr p) \<Rightarrow> {p} | _ \<Rightarrow> {})"

definition ok_env :: env where
  "ok_env = \<lparr>makedirs_error = (\<lambda>p. None),
             extract_info = (\<lambda>opts url. Inr [(''formats'', sample_formats)]),
             download = (\<lambda>opts urls. (written_by opts, None))\<rparr>"

definition download_error_env :: env where
  "download_error_env = ok_env\<lparr>download := (\<lambda>opts urls. ({}, Some (DownloadError ''ERROR: Unsupported URL'')))\<rparr>"

definition crash_env :: env where
  "crash_env = ok_env\<lparr>download := (\<lambda>opts urls. ({}, Some (OtherException ''connection reset'')))\<rparr>"

definition readonly_env :: env where
  "readonly_env = ok_env\<lparr>makedirs_error := (\<lambda>p. Some ''[Errno 13] Permission denied'')\<rparr>"

definition no_id_formats :: "variant list" where
  "no_id_formats = [[(''resolution'', PStr ''1280x720'')], [(''format_note'', PStr ''audio only'')]]"

definition no_id_env :: env where
  "no_id_env = ok_env\<lparr>extract_info := (\<lambda>opts url. Inr [(''formats'', no_id_formats)])\<rparr>"

definition silent_failure_env :: env where
  "silent_failure_env = ok_env\<lparr>extract_info := (\<lambda>opts url. Inl (OtherException []))\<rparr>"

definition unsupported_env :: env where
  "unsupported_env = ok_env\<lparr>extract_info := (\<lambda>opts url. Inl (DownloadError ''ERROR: Unsupported URL''))\<rparr>"

definition empty_world :: world where
  "empty_world = \<lparr>fs = {}, calls = []\<rparr>"

section \<open>Auxiliary facts\<close>

lemma map_of_dict_set: "map_of (dict_set k v d) = (map_of d)(k \<mapsto> v)"
  by (induction d) (auto simp: fun_eq_iff)

lemma keys_dict_set: "fst ` set (dict_set k v d) = insert k (fst ` set d)"
proof (induction d)
  case Nil
  then show ?case by simp
next
  case (Cons kv d)
  obtain k' v' where kv: "kv = (k', v')" by (cases kv)
  show ?case
  proof (cases "k' = k")
    case True
    then show ?thesis by (simp add: kv)
  next
    case False
    then show ?thesis by (simp add: kv Cons.IH insert_commute)
  qed
qed

lemma get_format_string_falsy: "\<not> truthy itag \<Longrightarrow> get_format_string itag = ''best''"
  by (cases itag) (auto simp: get_format_string_def format_map_def dict_get_def)

lemma download_ydl_opts_format:
  "map_of (download_ydl_opts fp platform itag) ''format'' =
     Some (OStr (if platform \<in> {''YouTube'', ''YouTube Shorts''} \<and> itag \<noteq> PNone
                 then get_format_string itag else ''best''))"
  using get_format_string_falsy[of itag]
  by (cases itag) (auto simp: download_ydl_opts_def map_of_dict_set Let_def)

lemma folder_shape:
  "dict_get DOWNLOAD_FOLDERS platform ''downloads'' \<noteq> [] \<and>
   last (dict_get DOWNLOAD_FOLDERS platform ''downloads'') \<noteq> CHR ''/''"
  by (simp add: dict_get_def DOWNLOAD_FOLDERS_def)

lemma file_path_eq:
  "os_path_join (dict_get DOWNLOAD_FOLDERS platform ''downloads'') DEFAULT_FILE_NAME =
     dict_get DOWNLOAD_FOLDERS platform ''downloads'' @ ''/'' @ DEFAULT_FILE_NAME"
  using folder_shape[of platform] by (simp add: os_path_join_def DEFAULT_FILE_NAME_def)

lemma ensure_folder_exists_raises:
  "ensure_folder_exists E folder paths = Inl e \<Longrightarrow> \<exists>m. e = OtherException m"
  by (auto simp: ensure_folder_exists_def makedirs_def split: if_splits option.splits)

lemma ensure_folder_exists_returns:
  "ensure_folder_exists E folder paths = Inr paths1 \<Longrightarrow>
     folder \<in> paths1 \<and> paths \<subseteq> paths1 \<and> paths1 \<subseteq> paths \<union> set (parents folder) \<union> {folder}"
  by (auto simp: ensure_folder_exists_def makedirs_def split: if_splits option.splits)

lemma download_video_try_provision_fails:
  "ensure_folder_exists E (dict_get DOWNLOAD_FOLDERS platform ''downloads'') (fs w) = Inl e \<Longrightarrow>
     download_video_try E w url platform itag = (Inl e, w)"
  by (simp add: download_video_try_def)

lemma download_video_try_provisioned:
  "ensure_folder_exists E (dict_get DOWNLOAD_FOLDERS platform ''downloads'') (fs w) = Inr paths \<Longrightarrow>
     download_video_try E w url platform itag =
       (let fp = os_path_join (dict_get DOWNLOAD_FOLDERS platform ''downloads'') DEFAULT_FILE_NAME;
            opts = download_ydl_opts fp platform itag;
            w' = \<lparr>fs = paths \<union> fst (download E opts [url]),
                  calls = calls w @ [Download opts [url]]\<rparr>
        in (case snd (download E opts [url]) of Some e \<Rightarrow> Inl e | None \<Rightarrow> Inr fp, w'))"
  by (simp add: download_video_try_def Let_def split: prod.splits option.splits)

lemma available_itags_loop_keys:
  "fst ` set (available_itags_loop formats acc) =
     fst ` set acc \<union> {v. \<exists>f\<in>set formats. map_of f ''format_id'' = Some v}"
proof (induction formats arbitrary: acc)
  case Nil
  then show ?case by simp
next
  case (Cons f formats)
  show ?case
  proof (cases "map_of f ''format_id''")
    case None
    then show ?thesis by (simp add: Cons.IH dict_has_def)
  next
    case (Some v)
    then show ?thesis
      by (auto simp: Cons.IH dict_has_def dict_get_def keys_dict_set Let_def)
  qed
qed

lemma available_itags_keys:
  "fst ` set (available_itags formats) = {v. \<exists>f\<in>set formats. map_of f ''format_id'' = Some v}"
  by (simp add: available_itags_def available_itags_loop_keys)

lemma ok_env_provisions:
  "ensure_folder_exists ok_env (dict_get DOWNLOAD_FOLDERS ''YouTube'' ''downloads'') (fs empty_world)
     = Inr (set (parents ''youtube_video'') \<union> {''youtube_video''})"
  by (simp add: ensure_folder_exists_def makedirs_def ok_env_def empty_world_def
        dict_get_def DOWNLOAD_FOLDERS_def)

lemma download_video_provision_fails:
  "ensure_folder_exists E (dict_get DOWNLOAD_FOLDERS platform ''downloads'') (fs w) = Inl e \<Longrightarrow>
     download_video E w url platform itag =
       (Failure (''Exception in download_video: '' @ str_exn e), w)"
proof -
  assume provision: "ensure_folder_exists E (dict_get DOWNLOAD_FOLDERS platform ''downloads'') (fs w) = Inl e"
  then obtain m where "e = OtherException m"
    using ensure_folder_exists_raises by blast
  with provision show ?thesis
    by (simp add: download_video_def download_video_try_provision_fails)
qed

lemma download_video_provisioned:
  "ensure_folder_exists E (dict_get DOWNLOAD_FOLDERS platform ''downloads'') (fs w) = Inr paths \<Longrightarrow>
     download_video E w url platform itag =
       (let fp = os_path_join (dict_get DOWNLOAD_FOLDERS platform ''downloads'') DEFAULT_FILE_NAME;
            opts = download_ydl_opts fp platform itag;
            w' = \<lparr>fs = paths \<union> fst (download E opts [url]),
                  calls = calls w @ [Download opts [url]]\<rparr>
        in (case snd (download E opts [url]) of
              None \<Rightarrow> Success fp
            | Some (DownloadError m) \<Rightarrow> Failure (''Download error: '' @ m)
            | Some (OtherException m) \<Rightarrow> Failure (''Exception in download_video: '' @ m), w'))"
  by (simp add: download_video_def download_video_try_provisioned Let_def
        split: option.splits exn.splits)

lemma download_video_success:
  assumes "download_video E w url platform itag = (Success file_path, w')"
  shows "file_path = os_path_join (dict_get DOWNLOAD_FOLDERS platform ''downloads'') DEFAULT_FILE_NAME"
proof (cases "ensure_folder_exists E (dict_get DOWNLOAD_FOLDERS platform ''downloads'') (fs w)")
  case (Inl e)
  with assms show ?thesis
    by (simp add: download_video_def download_video_try_provision_fails split: exn.splits)
next
  case (Inr paths)
  with assms show ?thesis
    by (auto simp: download_video_def download_video_try_provisioned Let_def
          split: option.splits exn.splits)
qed

lemma readonly_env_refuses:
  "ensure_folder_exists readonly_env (dict_get DOWNLOAD_FOLDERS ''TikTok'' ''downloads'') (fs empty_world)
     = Inl (OtherException ''[Errno 13] Permission denied'')"
  by (simp add: ensure_folder_exists_def makedirs_def readonly_env_def ok_env_def empty_world_def
        dict_get_def DOWNLOAD_FOLDERS_def)

lemma available_itags_loop_no_ids:
  "\<forall>f\<in>set formats. \<not> dict_has f ''format_id'' \<Longrightarrow> available_itags_loop formats acc = acc"
  by (induction formats arbitrary: acc) simp_all

lemma download_error_env_provisions:
  "ensure_folder_exists download_error_env (dict_get DOWNLOAD_FOLDERS ''YouTube'' ''downloads'') (fs empty_world)
     = Inr (set (parents ''youtube_video'') \<union> {''youtube_video''})"
  by (simp add: ensure_folder_exists_def makedirs_def download_error_env_def ok_env_def
        empty_world_def dict_get_def DOWNLOAD_FOLDERS_def)

lemma parents_single: "parents ''youtube_video'' = []"
  by code_simp

section \<open>The download orchestrator: output path\<close>

text \<open>
  Claim C1. Whenever \<open>download_video\<close> succeeds, the file path of its result is the
  folder of the platform joined with the constant file name \<^verbatim>\<open>Untitled.mp4\<close>:
  \<^verbatim>\<open>youtube_video/Untitled.mp4\<close> for YouTube, \<^verbatim>\<open>tiktok_video/Untitled.mp4\<close> for TikTok,
  and \<^verbatim>\<open>downloads/Untitled.mp4\<close> for a label that the table does not know. The path
  depends on the platform label alone: any other successful run for the same label,
  whatever its URL, selector, environment and state, returns the same path.
\<close>

theorem download_video_success_path:
  assumes "download_video E w url platform itag = (Success file_path, w')"
  shows "file_path = os_path_join (dict_get DOWNLOAD_FOLDERS platform ''downloads'') DEFAULT_FILE_NAME \<and>
         file_path = dict_get DOWNLOAD_FOLDERS platform ''downloads'' @ ''/Untitled.mp4'' \<and>
         (platform = ''YouTube'' \<longrightarrow> file_path = ''youtube_video/Untitled.mp4'') \<and>
         (platform = ''TikTok'' \<longrightarrow> file_path = ''tiktok_video/Untitled.mp4'') \<and>
         (platform \<notin> fst ` set DOWNLOAD_FOLDERS \<longrightarrow> file_path = ''downloads/Untitled.mp4'') \<and>
         (\<forall>E2 w2 url2 itag2 file_path2 w2'.
            download_video E2 w2 url2 platform itag2 = (Success file_path2, w2') \<longrightarrow>
            file_path2 = file_path)"
proof -
  have p: "file_path = dict_get DOWNLOAD_FOLDERS platform ''downloads'' @ ''/Untitled.mp4''"
    using download_video_success[OF assms] file_path_eq[of platform]
    by (simp add: DEFAULT_FILE_NAME_def)
  have fallback: "dict_get DOWNLOAD_FOLDERS platform ''downloads'' = ''downloads''"
    if "platform \<notin> fst ` set DOWNLOAD_FOLDERS"
    using that by (simp add: dict_get_def DOWNLOAD_FOLDERS_def)
  have yt: "dict_get DOWNLOAD_FOLDERS ''YouTube'' ''downloads'' = ''youtube_video''"
    and tt: "dict_get DOWNLOAD_FOLDERS ''TikTok'' ''downloads'' = ''tiktok_video''"
    by (simp_all add: dict_get_def DOWNLOAD_FOLDERS_def)
  have same: "file_path2 = file_path"
    if "download_video E2 w2 url2 platform itag2 = (Success file_path2, w2')"
    for E2 w2 url2 itag2 file_path2 w2'
    using download_video_success[OF that] download_video_success[OF assms] by simp
  show ?thesis
    using download_video_success[OF assms] p fallback yt tt same by auto
qed

theorem download_video_success_path_witness:
  "fst (download_video ok_env empty_world ''https://youtu.be/dQw4'' ''YouTube'' (PInt 22))
     = Success ''youtube_video/Untitled.mp4''"
proof -
  obtain file_path where run:
    "download_video ok_env empty_world ''https://youtu.be/dQw4'' ''YouTube'' (PInt 22) =
       (Success file_path, snd (download_video ok_env empty_world ''https://youtu.be/dQw4'' ''YouTube'' (PInt 22)))"
    unfolding download_video_provisioned[OF ok_env_provisions]
    by (simp add: Let_def ok_env_def)
  from download_video_success_path[OF run] have "file_path = ''youtube_video/Untitled.mp4''"
    by blast
  with run show ?thesis by (metis fst_conv)
qed

section \<open>The format resolver\<close>

text \<open>
  Claim C2. \<open>get_format_string\<close> maps the identifiers 18, 22 and 37 to the strings
  \<^verbatim>\<open>'18'\<close>, \<^verbatim>\<open>'22'\<close> and \<^verbatim>\<open>'37'\<close>, and every other identifier to \<^verbatim>\<open>'best'\<close>. It is a
  function of its argument alone: it neither reads nor changes the state, and it has
  no error result.
\<close>

theorem get_format_string_table:
  "get_format_string (PInt 18) = ''18'' \<and>
   get_format_string (PInt 22) = ''22'' \<and>
   get_format_string (PInt 37) = ''37'' \<and>
   (\<forall>itag. itag \<notin> {PInt 18, PInt 22, PInt 37} \<longrightarrow> get_format_string itag = ''best'')"
  by (auto simp: get_format_string_def format_map_def dict_get_def)

theorem get_format_string_table_witness:
  "get_format_string (PInt 135) = ''best'' \<and> get_format_string PNone = ''best''"
proof -
  have "PInt 135 \<notin> {PInt 18, PInt 22, PInt 37}" and "PNone \<notin> {PInt 18, PInt 22, PInt 37}"
    by simp_all
  with get_format_string_table show ?thesis by blast
qed

text \<open>
  Claim C9. The table of \<open>get_format_string\<close> has integer keys, so every string
  selector, the strings \<^verbatim>\<open>'18'\<close>, \<^verbatim>\<open>'22'\<close> and \<^verbatim>\<open>'37'\<close> included, resolves to
  \<^verbatim>\<open>'best'\<close>, and so does the format that \<open>download_video\<close> configures for it. When the
  format identifiers of the fetched variants are strings, this holds of every selector
  the resolution picker of \<^verbatim>\<open>main\<close> can offer.
\<close>

theorem string_selector_gives_best:
  "get_format_string (PStr s) = ''best'' \<and>
   map_of (download_ydl_opts file_path platform (PStr s)) ''format'' = Some (OStr ''best'') \<and>
   ((\<forall>f\<in>set formats. \<forall>v. map_of f ''format_id'' = Some v \<longrightarrow> (\<exists>t. v = PStr t)) \<longrightarrow>
    (\<forall>itag\<in>fst ` set (available_itags formats).
       get_format_string itag = ''best'' \<and>
       map_of (download_ydl_opts file_path platform itag) ''format'' = Some (OStr ''best'')))"
proof -
  have best: "get_format_string (PStr t) = ''best''" for t
    by (simp add: get_format_string_def format_map_def dict_get_def)
  have opts: "map_of (download_ydl_opts file_path platform (PStr t)) ''format'' = Some (OStr ''best'')" for t
    by (simp add: download_ydl_opts_format best)
  have ui: "get_format_string itag = ''best'' \<and>
            map_of (download_ydl_opts file_path platform itag) ''format'' = Some (OStr ''best'')"
    if ids: "\<forall>f\<in>set formats. \<forall>v. map_of f ''format_id'' = Some v \<longrightarrow> (\<exists>t. v = PStr t)"
      and key: "itag \<in> fst ` set (available_itags formats)" for itag
  proof -
    from key obtain f where "f \<in> set formats" and "map_of f ''format_id'' = Some itag"
      unfolding available_itags_keys by blast
    with ids obtain t where "itag = PStr t" by blast
    then show ?thesis by (simp add: best opts)
  qed
  show ?thesis
    using best opts ui by blast
qed

theorem string_selector_gives_best_witness:
  "fst ` set (available_itags sample_formats) = {PStr ''18'', PStr ''22''} \<and>
   get_format_string (PStr ''22'') = ''best'' \<and>
   map_of (download_ydl_opts ''youtube_video/Untitled.mp4'' ''YouTube'' (PStr ''22'')) ''format''
     = Some (OStr ''best'')"
proof -
  have ids: "\<forall>f\<in>set sample_formats. \<forall>v. map_of f ''format_id'' = Some v \<longrightarrow> (\<exists>t. v = PStr t)"
    by (simp add: sample_formats_def)
  have keys: "fst ` set (available_itags sample_formats) = {PStr ''18'', PStr ''22''}"
    by (auto simp: available_itags_keys sample_formats_def)
  have "PStr ''22'' \<in> fst ` set (available_itags sample_formats)"
    by (simp add: keys)
  with ids string_selector_gives_best[of _ "''youtube_video/Untitled.mp4''" "''YouTube''" sample_formats]
  have "get_format_string (PStr ''22'') = ''best'' \<and>
        map_of (download_ydl_opts ''youtube_video/Untitled.mp4'' ''YouTube'' (PStr ''22'')) ''format''
          = Some (OStr ''best'')"
    by blast
  with keys show ?thesis by blast
qed

section \<open>The download orchestrator: format specifier\<close>

text \<open>
  Claim C3. When the folder cannot be provisioned, \<open>download_video\<close> makes no call to
  the extraction library. Otherwise it makes one download call, whose option
  \<^verbatim>\<open>'format'\<close> is the format resolver applied to the selector when the platform is
  YouTube or YouTube Shorts and a selector was supplied (it is not \<^verbatim>\<open>None\<close>), and
  \<^verbatim>\<open>'best'\<close> in every other case. The source tests the truth value of the selector and
  not whether it is \<^verbatim>\<open>None\<close>; the two agree here because the resolver maps the false
  selectors \<^verbatim>\<open>0\<close> and \<^verbatim>\<open>''\<close> to \<^verbatim>\<open>'best'\<close> as well.
\<close>

theorem download_video_format:
  "(ensure_folder_exists E (dict_get DOWNLOAD_FOLDERS platform ''downloads'') (fs w) = Inl e \<longrightarrow>
      calls (snd (download_video E w url platform itag)) = calls w) \<and>
   (ensure_folder_exists E (dict_get DOWNLOAD_FOLDERS platform ''downloads'') (fs w) = Inr paths \<longrightarrow>
      (\<exists>opts. calls (snd (download_video E w url platform itag)) = calls w @ [Download opts [url]] \<and>
         map_of opts ''format'' =
           Some (OStr (if platform \<in> {''YouTube'', ''YouTube Shorts''} \<and> itag \<noteq> PNone
                       then get_format_string itag else ''best''))))"
proof (intro conjI impI)
  assume "ensure_folder_exists E (dict_get DOWNLOAD_FOLDERS platform ''downloads'') (fs w) = Inl e"
  then show "calls (snd (download_video E w url platform itag)) = calls w"
    by (simp add: download_video_def download_video_try_provision_fails split: exn.splits)
next
  assume "ensure_folder_exists E (dict_get DOWNLOAD_FOLDERS platform ''downloads'') (fs w) = Inr paths"
  then have "calls (snd (download_video E w url platform itag)) =
      calls w @ [Download (download_ydl_opts
        (os_path_join (dict_get DOWNLOAD_FOLDERS platform ''downloads'') DEFAULT_FILE_NAME)
        platform itag) [url]]"
    by (simp add: download_video_def download_video_try_provisioned Let_def
             split: option.splits exn.splits)
  then show "\<exists>opts. calls (snd (download_video E w url platform itag)) = calls w @ [Download opts [url]] \<and>
         map_of opts ''format'' =
           Some (OStr (if platform \<in> {''YouTube'', ''YouTube Shorts''} \<and> itag \<noteq> PNone
                       then get_format_string itag else ''best''))"
    using download_ydl_opts_format by blast
qed

theorem download_video_format_witness:
  "(\<exists>opts. calls (snd (download_video ok_env empty_world ''https://youtu.be/dQw4'' ''YouTube'' (PInt 22)))
            = calls empty_world @ [Download opts [''https://youtu.be/dQw4'']] \<and>
          map_of opts ''format'' = Some (OStr ''22'')) \<and>
   calls (snd (download_video readonly_env empty_world ''https://vm.tiktok.com/x'' ''TikTok'' PNone))
     = calls empty_world"
proof -
  from download_video_format[where E = ok_env and w = empty_world and platform = "''YouTube''"
      and url = "''https://youtu.be/dQw4''" and itag = "PInt 22"] ok_env_provisions
  have "\<exists>opts. calls (snd (download_video ok_env empty_world ''https://youtu.be/dQw4'' ''YouTube'' (PInt 22)))
            = calls empty_world @ [Download opts [''https://youtu.be/dQw4'']] \<and>
          map_of opts ''format'' =
            Some (OStr (if ''YouTube'' \<in> {''YouTube'', ''YouTube Shorts''} \<and> PInt 22 \<noteq> PNone
                        then get_format_string (PInt 22) else ''best''))"
    by blast
  moreover have "(if ''YouTube'' \<in> {''YouTube'', ''YouTube Shorts''} \<and> PInt 22 \<noteq> PNone
                  then get_format_string (PInt 22) else ''best'') = ''22''"
    by (simp add: get_format_string_def format_map_def dict_get_def)
  moreover from download_video_format[where E = readonly_env and w = empty_world
      and platform = "''TikTok''" and url = "''https://vm.tiktok.com/x''" and itag = PNone]
    readonly_env_refuses
  have "calls (snd (download_video readonly_env empty_world ''https://vm.tiktok.com/x'' ''TikTok'' PNone))
     = calls empty_world"
    by blast
  ultimately show ?thesis by simp
qed

section \<open>The download orchestrator: failures\<close>

text \<open>
  Claim C7. \<open>download_video\<close> always returns a result. Either the folder could not be
  provisioned, and the result is a failure with the prefix
  \<^verbatim>\<open>Exception in download_video: \<close> while the state is unchanged; or exactly one
  download call was made, and the result is a success when the call raised nothing, a
  failure with the prefix \<^verbatim>\<open>Download error: \<close> when it raised \<^verbatim>\<open>DownloadError\<close>, and a
  failure with the prefix \<^verbatim>\<open>Exception in download_video: \<close> when it raised anything
  else. A refusal of \<^verbatim>\<open>os.makedirs\<close> is reported with its message. The two prefixes
  never give the same message, no failure message is empty, and the library is called
  at most once (there is no retry).
\<close>

theorem download_video_never_raises:
  assumes "download_video E w url platform itag = (r, w')"
  shows "((\<exists>m. r = Failure (''Exception in download_video: '' @ m)) \<and> w' = w \<or>
          (\<exists>opts. calls w' = calls w @ [Download opts [url]] \<and>
             (case snd (download E opts [url]) of
                None \<Rightarrow> \<exists>file_path. r = Success file_path
              | Some (DownloadError m) \<Rightarrow> r = Failure (''Download error: '' @ m)
              | Some (OtherException m) \<Rightarrow> r = Failure (''Exception in download_video: '' @ m)))) \<and>
         (\<forall>m. dict_get DOWNLOAD_FOLDERS platform ''downloads'' \<notin> fs w \<and>
              makedirs_error E (dict_get DOWNLOAD_FOLDERS platform ''downloads'') = Some m \<longrightarrow>
              r = Failure (''Exception in download_video: '' @ m) \<and> w' = w) \<and>
         (\<forall>m1 m2. ''Download error: '' @ m1 \<noteq> ''Exception in download_video: '' @ m2) \<and>
         r \<noteq> Failure [] \<and>
         length (calls w') \<le> length (calls w) + 1"
proof -
  let ?folder = "dict_get DOWNLOAD_FOLDERS platform ''downloads''"
  have main: "(\<exists>m. r = Failure (''Exception in download_video: '' @ m)) \<and> w' = w \<or>
          (\<exists>opts. calls w' = calls w @ [Download opts [url]] \<and>
             (case snd (download E opts [url]) of
                None \<Rightarrow> \<exists>file_path. r = Success file_path
              | Some (DownloadError m) \<Rightarrow> r = Failure (''Download error: '' @ m)
              | Some (OtherException m) \<Rightarrow> r = Failure (''Exception in download_video: '' @ m)))"
  proof (cases "ensure_folder_exists E ?folder (fs w)")
    case (Inl e)
    from download_video_provision_fails[OF Inl, of url itag] assms show ?thesis
      by auto
  next
    case (Inr paths)
    from download_video_provisioned[OF Inr, of url itag] assms show ?thesis
      by (auto simp: Let_def split: option.splits exn.splits)
  qed
  have provision: "r = Failure (''Exception in download_video: '' @ m) \<and> w' = w"
    if "?folder \<notin> fs w \<and> makedirs_error E ?folder = Some m" for m
  proof -
    have "?folder \<noteq> []" using folder_shape by simp
    with that have "ensure_folder_exists E ?folder (fs w) = Inl (OtherException m)"
      by (simp add: ensure_folder_exists_def makedirs_def)
    from download_video_provision_fails[OF this, of url itag] assms show ?thesis
      by simp
  qed
  have distinct: "''Download error: '' @ m1 \<noteq> ''Exception in download_video: '' @ m2" for m1 m2
    by simp
  have nonempty: "r \<noteq> Failure []"
  proof (cases "ensure_folder_exists E ?folder (fs w)")
    case (Inl e)
    from download_video_provision_fails[OF Inl, of url itag] assms show ?thesis
      by auto
  next
    case (Inr paths)
    from download_video_provisioned[OF Inr, of url itag] assms show ?thesis
      by (auto simp: Let_def split: option.splits exn.splits)
  qed
  have once: "length (calls w') \<le> length (calls w) + 1"
    using main by auto
  show ?thesis
    using main provision distinct nonempty once by blast
qed

theorem download_video_never_raises_witness:
  "fst (download_video readonly_env empty_world ''not-a-url'' ''TikTok'' PNone)
     = Failure ''Exception in download_video: [Errno 13] Permission denied'' \<and>
   fst (download_video download_error_env empty_world ''not-a-url'' ''TikTok'' PNone) \<noteq> Failure [] \<and>
   length (calls (snd (download_video download_error_env empty_world ''not-a-url'' ''TikTok'' PNone))) \<le> 1"
proof -
  have run: "download_video E empty_world ''not-a-url'' ''TikTok'' PNone =
      (fst (download_video E empty_world ''not-a-url'' ''TikTok'' PNone),
       snd (download_video E empty_world ''not-a-url'' ''TikTok'' PNone))" for E
    by simp
  have refused: "dict_get DOWNLOAD_FOLDERS ''TikTok'' ''downloads'' \<notin> fs empty_world \<and>
      makedirs_error readonly_env (dict_get DOWNLOAD_FOLDERS ''TikTok'' ''downloads'')
        = Some ''[Errno 13] Permission denied''"
    by (simp add: empty_world_def readonly_env_def ok_env_def)
  from download_video_never_raises[OF run[of readonly_env]] refused
  have "fst (download_video readonly_env empty_world ''not-a-url'' ''TikTok'' PNone)
     = Failure (''Exception in download_video: '' @ ''[Errno 13] Permission denied'')"
    by blast
  moreover from download_video_never_raises[OF run[of download_error_env]]
  have "fst (download_video download_error_env empty_world ''not-a-url'' ''TikTok'' PNone) \<noteq> Failure [] \<and>
    length (calls (snd (download_video download_error_env empty_world ''not-a-url'' ''TikTok'' PNone)))
      \<le> length (calls empty_world) + 1"
    by blast
  ultimately show ?thesis by (simp add: empty_world_def)
qed

text \<open>
  Claim C10. The folder is provisioned before the download call and nothing undoes
  it: whenever provisioning succeeded and \<open>download_video\<close> returns a failure, the
  platform folder exists in the final state, together with everything provisioning
  left behind. When the folder did not exist before the call, the filesystem after
  the failure differs from the one before it, so a failed call is not atomic.
\<close>

theorem download_video_failure_keeps_folder:
  assumes "ensure_folder_exists E (dict_get DOWNLOAD_FOLDERS platform ''downloads'') (fs w) = Inr paths"
    and "download_video E w url platform itag = (Failure m, w')"
  shows "dict_get DOWNLOAD_FOLDERS platform ''downloads'' \<in> fs w' \<and>
         paths \<subseteq> fs w' \<and>
         (dict_get DOWNLOAD_FOLDERS platform ''downloads'' \<notin> fs w \<longrightarrow> fs w' \<noteq> fs w)"
proof -
  from download_video_provisioned[OF assms(1), of url itag] assms(2)
  have "paths \<subseteq> fs w'"
    by (auto simp: Let_def)
  moreover from ensure_folder_exists_returns[OF assms(1)]
  have "dict_get DOWNLOAD_FOLDERS platform ''downloads'' \<in> paths" by simp
  ultimately show ?thesis by auto
qed

theorem download_video_failure_keeps_folder_witness:
  "fst (download_video download_error_env empty_world ''not-a-url'' ''YouTube'' PNone)
     = Failure ''Download error: ERROR: Unsupported URL'' \<and>
   ''youtube_video'' \<notin> fs empty_world \<and>
   ''youtube_video'' \<in> fs (snd (download_video download_error_env empty_world ''not-a-url'' ''YouTube'' PNone)) \<and>
   fs (snd (download_video download_error_env empty_world ''not-a-url'' ''YouTube'' PNone)) \<noteq> fs empty_world"
proof -
  have folder: "dict_get DOWNLOAD_FOLDERS ''YouTube'' ''downloads'' = ''youtube_video''"
    by (simp add: dict_get_def DOWNLOAD_FOLDERS_def)
  have failed: "fst (download_video download_error_env empty_world ''not-a-url'' ''YouTube'' PNone)
     = Failure ''Download error: ERROR: Unsupported URL''"
    unfolding download_video_provisioned[OF download_error_env_provisions]
    by (simp add: Let_def download_error_env_def ok_env_def)
  then have run: "download_video download_error_env empty_world ''not-a-url'' ''YouTube'' PNone =
      (Failure ''Download error: ERROR: Unsupported URL'',
       snd (download_video download_error_env empty_world ''not-a-url'' ''YouTube'' PNone))"
    by (metis prod.collapse)
  have absent: "''youtube_video'' \<notin> fs empty_world"
    by (simp add: empty_world_def)
  from download_video_failure_keeps_folder[OF download_error_env_provisions run] absent failed
  show ?thesis
    unfolding folder by blast
qed

section \<open>The folder provisioner\<close>

text \<open>
  Claim C8. \<open>ensure_folder_exists\<close> is idempotent. On a folder that exists it
  returns without changing the filesystem. After a call that returns, a second call
  returns as well and changes nothing, and the filesystem holds exactly one entry
  under the name of the folder; the first call added at most the folder and its
  parents. Existence is what \<^verbatim>\<open>os.path.exists\<close> reports, which is all the function
  asks of the filesystem.
\<close>

theorem ensure_folder_exists_idempotent:
  "(folder \<in> paths \<longrightarrow> ensure_folder_exists E folder paths = Inr paths) \<and>
   (ensure_folder_exists E folder paths = Inr paths1 \<longrightarrow>
      ensure_folder_exists E folder paths1 = Inr paths1 \<and>
      card {p \<in> paths1. p = folder} = 1 \<and>
      paths \<subseteq> paths1 \<and> paths1 - paths \<subseteq> insert folder (set (parents folder)))"
proof (intro conjI impI)
  assume "folder \<in> paths"
  then show "ensure_folder_exists E folder paths = Inr paths"
    by (simp add: ensure_folder_exists_def)
next
  assume first: "ensure_folder_exists E folder paths = Inr paths1"
  from ensure_folder_exists_returns[OF first] have inside: "folder \<in> paths1" by simp
  then show "ensure_folder_exists E folder paths1 = Inr paths1"
    by (simp add: ensure_folder_exists_def)
  from inside have "{p \<in> paths1. p = folder} = {folder}" by auto
  then show "card {p \<in> paths1. p = folder} = 1" by simp
  from ensure_folder_exists_returns[OF first] show "paths \<subseteq> paths1" by simp
  from ensure_folder_exists_returns[OF first]
  show "paths1 - paths \<subseteq> insert folder (set (parents folder))" by auto
qed

theorem ensure_folder_exists_idempotent_witness:
  "ensure_folder_exists ok_env ''youtube_video'' {''youtube_video''} = Inr {''youtube_video''} \<and>
   ensure_folder_exists ok_env ''youtube_video'' {} = Inr {''youtube_video''} \<and>
   card {p \<in> {''youtube_video''}. p = ''youtube_video''} = 1"
proof -
  have present: "''youtube_video'' \<in> {''youtube_video''}" by simp
  have first: "ensure_folder_exists ok_env ''youtube_video'' {} = Inr {''youtube_video''}"
    by (simp add: ensure_folder_exists_def makedirs_def ok_env_def parents_single)
  from ensure_folder_exists_idempotent[of "''youtube_video''" "{''youtube_video''}" ok_env] present
  have "ensure_folder_exists ok_env ''youtube_video'' {''youtube_video''} = Inr {''youtube_video''}"
    by blast
  moreover from ensure_folder_exists_idempotent[of "''youtube_video''" "{}" ok_env
      "{''youtube_video''}"] first
  have "card {p \<in> {''youtube_video''}. p = ''youtube_video''} = 1"
    by blast
  ultimately show ?thesis using first by blast
qed

section \<open>The info fetcher\<close>

text \<open>
  Claim C4, as stated: on success \<open>fetch_video_info\<close> returns the variants with
  those lacking a format identifier dropped, and an empty list when all of them lack
  one. The function returns the list of the library as it is: on an answer of two
  variants without a format identifier it returns both.
\<close>

theorem fetch_video_info_keeps_variants_counterexample:
  "fst (fetch_video_info no_id_env empty_world ''https://youtu.be/dQw4'')
     = Success [[(''resolution'', PStr ''1280x720'')], [(''format_note'', PStr ''audio only'')]] \<and>
   fst (fetch_video_info no_id_env empty_world ''https://youtu.be/dQw4'') \<noteq> Success [] \<and>
   \<not> dict_has [(''resolution'', PStr ''1280x720'')] ''format_id'' \<and>
   \<not> dict_has [(''format_note'', PStr ''audio only'')] ''format_id''"
  by (simp add: fetch_video_info_def fetch_video_info_try_def no_id_env_def ok_env_def
        no_id_formats_def dict_get_def dict_has_def Let_def)

text \<open>
  Claim C4, amended. On success \<open>fetch_video_info\<close> makes one metadata call and
  returns the variants of the answer unchanged (the empty list when the answer has no
  entry \<^verbatim>\<open>'formats'\<close>). The variants without a format identifier are dropped by the
  caller: the table of selectable resolutions that \<^verbatim>\<open>main\<close> builds from the result
  has exactly the format identifiers of the variants that carry one, and it is empty
  when no variant carries one.
\<close>

theorem fetch_video_info_success:
  assumes "extract_info E fetch_ydl_opts url = Inr info_dict"
  shows "fetch_video_info E w url =
           (Success (dict_get info_dict ''formats'' []),
            w\<lparr>calls := calls w @ [ExtractInfo fetch_ydl_opts url]\<rparr>) \<and>
         fst ` set (available_itags (dict_get info_dict ''formats'' [])) =
           {v. \<exists>f\<in>set (dict_get info_dict ''formats'' []). map_of f ''format_id'' = Some v} \<and>
         ((\<forall>f\<in>set (dict_get info_dict ''formats'' []). \<not> dict_has f ''format_id'') \<longrightarrow>
            available_itags (dict_get info_dict ''formats'' []) = [])"
proof (intro conjI impI)
  show "fetch_video_info E w url =
           (Success (dict_get info_dict ''formats'' []),
            w\<lparr>calls := calls w @ [ExtractInfo fetch_ydl_opts url]\<rparr>)"
    using assms by (simp add: fetch_video_info_def fetch_video_info_try_def Let_def)
  show "fst ` set (available_itags (dict_get info_dict ''formats'' [])) =
           {v. \<exists>f\<in>set (dict_get info_dict ''formats'' []). map_of f ''format_id'' = Some v}"
    by (rule available_itags_keys)
next
  assume "\<forall>f\<in>set (dict_get info_dict ''formats'' []). \<not> dict_has f ''format_id''"
  then show "available_itags (dict_get info_dict ''formats'' []) = []"
    by (simp add: available_itags_def available_itags_loop_no_ids)
qed

theorem fetch_video_info_success_witness:
  "fst (fetch_video_info no_id_env empty_world ''https://youtu.be/dQw4'') = Success no_id_formats \<and>
   available_itags no_id_formats = []"
proof -
  have answer: "extract_info no_id_env fetch_ydl_opts ''https://youtu.be/dQw4''
      = Inr [(''formats'', no_id_formats)]"
    by (simp add: no_id_env_def ok_env_def)
  have formats: "dict_get [(''formats'', no_id_formats)] ''formats'' [] = no_id_formats"
    by (simp add: dict_get_def)
  have no_ids: "\<forall>f\<in>set (dict_get [(''formats'', no_id_formats)] ''formats'' []). \<not> dict_has f ''format_id''"
    unfolding formats by (simp add: no_id_formats_def dict_has_def)
  from fetch_video_info_success[OF answer, of empty_world] no_ids
  have "fst (fetch_video_info no_id_env empty_world ''https://youtu.be/dQw4'')
          = Success (dict_get [(''formats'', no_id_formats)] ''formats'' []) \<and>
        available_itags (dict_get [(''formats'', no_id_formats)] ''formats'' []) = []"
    by simp
  then show ?thesis by (simp add: formats)
qed

text \<open>
  Claim C6, as stated: when the metadata call raises, \<open>fetch_video_info\<close> returns a
  failure with a non-empty message. The message is \<^verbatim>\<open>str(e)\<close> with nothing added, so
  an exception whose text is empty gives a failure with an empty message.
\<close>

theorem fetch_video_info_empty_message_counterexample:
  "fst (fetch_video_info silent_failure_env empty_world ''not-a-url'') = Failure []"
  by (simp add: fetch_video_info_def fetch_video_info_try_def silent_failure_env_def ok_env_def
        Let_def)

text \<open>
  Claim C6, amended. When the metadata call raises, \<open>fetch_video_info\<close> catches the
  exception and returns a failure whose message is exactly \<^verbatim>\<open>str(e)\<close>; the message is
  empty exactly when the text of the exception is. The function makes exactly one
  call to the library (no retry) and returns in every case.
\<close>

theorem fetch_video_info_failure:
  assumes "extract_info E fetch_ydl_opts url = Inl e"
  shows "fetch_video_info E w url =
           (Failure (str_exn e), w\<lparr>calls := calls w @ [ExtractInfo fetch_ydl_opts url]\<rparr>) \<and>
         (fst (fetch_video_info E w url) = Failure []) = (str_exn e = []) \<and>
         length (calls (snd (fetch_video_info E w url))) = length (calls w) + 1"
  using assms by (simp add: fetch_video_info_def fetch_video_info_try_def Let_def)

theorem fetch_video_info_failure_witness:
  "fst (fetch_video_info unsupported_env empty_world ''not-a-url'') = Failure ''ERROR: Unsupported URL'' \<and>
   length (calls (snd (fetch_video_info unsupported_env empty_world ''not-a-url''))) = 1"
proof -
  have raised: "extract_info unsupported_env fetch_ydl_opts ''not-a-url''
      = Inl (DownloadError ''ERROR: Unsupported URL'')"
    by (simp add: unsupported_env_def ok_env_def)
  from fetch_video_info_failure[OF raised, of empty_world]
  show ?thesis by (simp add: empty_world_def)
qed

section \<open>The client identity headers\<close>

text \<open>
  Claim C5. \<open>fetch_video_info\<close> hands the table \<open>HEADERS\<close> to the library under the
  option \<^verbatim>\<open>'http_headers'\<close>, the header override of the extraction library.
  \<open>download_video\<close> stores the same table under the key \<^verbatim>\<open>'headers'\<close>: for every
  input its options have no entry \<^verbatim>\<open>'http_headers'\<close>, as the options logged by a run
  on a YouTube URL show. The download is therefore not configured with the simulated
  client identity through the header override.
\<close>

theorem download_video_headers_option:
  "map_of (download_ydl_opts file_path platform itag) ''http_headers'' = None \<and>
   map_of (download_ydl_opts file_path platform itag) ''headers'' = Some (OHeaders HEADERS) \<and>
   map_of fetch_ydl_opts ''http_headers'' = Some (OHeaders HEADERS) \<and>
   calls (snd (download_video ok_env empty_world ''https://youtu.be/dQw4'' ''YouTube'' PNone)) =
     [Download [(''outtmpl'', OStr ''youtube_video/Untitled.mp4''),
                (''quiet'', OBool False),
                (''headers'', OHeaders HEADERS),
                (''format'', OStr ''best'')]
        [''https://youtu.be/dQw4'']]"
proof -
  have run: "calls (snd (download_video ok_env empty_world ''https://youtu.be/dQw4'' ''YouTube'' PNone)) =
     [Download [(''outtmpl'', OStr ''youtube_video/Untitled.mp4''),
                (''quiet'', OBool False),
                (''headers'', OHeaders HEADERS),
                (''format'', OStr ''best'')]
        [''https://youtu.be/dQw4'']]"
    unfolding download_video_provisioned[OF ok_env_provisions]
    by (simp add: Let_def empty_world_def download_ydl_opts_def os_path_join_def
          dict_get_def DOWNLOAD_FOLDERS_def DEFAULT_FILE_NAME_def split: option.splits exn.splits)
  show ?thesis
    using run by (simp add: download_ydl_opts_def fetch_ydl_opts_def map_of_dict_set Let_def)
qed

end
